theory Spec2Isabelle
  imports Main
begin

section \<open>JavaScript values\<close>

text \<open>
  The extractor of \<^verbatim>\<open>src/src/index.ts\<close> reads the instance (fiber) tree through
  values typed \<^verbatim>\<open>any\<close>, so the model keeps them untyped: the primitive values,
  arrays, and plain objects. Objects live in a heap and are referred to by address: a
  parent link may therefore point back to an instance already visited (a cyclic
  chain). An object is the list of its own data properties in enumeration order; a
  function value is an object with a \<^verbatim>\<open>name\<close> property. An array is the list of
  its elements. Numbers are the integers (line numbers, pointer coordinates).
  Strings are lists of 8-bit characters: a character outside ASCII is its UTF-8
  byte sequence.
\<close>

type_synonym addr = nat

datatype jsval =
  JUndefined | JNull | JBool bool | JNum int | JStr string | JRef addr | JArr "jsval list"

type_synonym jsobject = "(string \<times> jsval) list"

type_synonym heap = "addr \<Rightarrow> jsobject"

datatype error = TypeError

text \<open>The truthiness test of \<^verbatim>\<open>if (v)\<close>, \<^verbatim>\<open>!v\<close>, \<^verbatim>\<open>a && b\<close> and \<^verbatim>\<open>a || b\<close>.\<close>

fun truthy :: "jsval \<Rightarrow> bool" where
  "truthy JUndefined = False"
| "truthy JNull = False"
| "truthy (JBool b) = b"
| "truthy (JNum n) = (n \<noteq> 0)"
| "truthy (JStr s) = (s \<noteq> [])"
| "truthy (JRef a) = True"
| "truthy (JArr vs) = True"

text \<open>\<^verbatim>\<open>a || b\<close>\<close>

definition js_or :: "jsval \<Rightarrow> jsval \<Rightarrow> jsval" where
  "js_or a b = (if truthy a then a else b)"

text \<open>
  \<^verbatim>\<open>typeof v\<close>. The program only compares it with \<^verbatim>\<open>'string'\<close>; a function
  object answers \<^verbatim>\<open>'function'\<close> in JavaScript and \<open>''object''\<close> here.
\<close>

fun typeof :: "jsval \<Rightarrow> string" where
  "typeof JUndefined = ''undefined''"
| "typeof JNull = ''object''"
| "typeof (JBool b) = ''boolean''"
| "typeof (JNum n) = ''number''"
| "typeof (JStr s) = ''string''"
| "typeof (JRef a) = ''object''"
| "typeof (JArr vs) = ''object''"

text \<open>
  The property read \<^verbatim>\<open>v.k\<close>, for the names the program reads
  (\<^verbatim>\<open>_debugSource\<close>, \<^verbatim>\<open>fileName\<close>, \<^verbatim>\<open>lineNumber\<close>, \<^verbatim>\<open>type\<close>,
  \<^verbatim>\<open>displayName\<close>, \<^verbatim>\<open>name\<close>, \<^verbatim>\<open>return\<close>): it raises a TypeError on
  \<^verbatim>\<open>undefined\<close> and \<^verbatim>\<open>null\<close>, looks the name up in an object, and finds none
  of these names on a boolean, a number, a string or an array.
\<close>

fun get_prop :: "heap \<Rightarrow> jsval \<Rightarrow> string \<Rightarrow> error + jsval" where
  "get_prop h JUndefined k = Inl TypeError"
| "get_prop h JNull k = Inl TypeError"
| "get_prop h (JRef a) k = Inr (case map_of (h a) k of None \<Rightarrow> JUndefined | Some v \<Rightarrow> v)"
| "get_prop h (JBool b) k = Inr JUndefined"
| "get_prop h (JNum n) k = Inr JUndefined"
| "get_prop h (JStr s) k = Inr JUndefined"
| "get_prop h (JArr vs) k = Inr JUndefined"

section \<open>Strings\<close>

text \<open>\<^verbatim>\<open>s.startsWith(p)\<close>\<close>

definition startsWith :: "string \<Rightarrow> string \<Rightarrow> bool" where
  "startsWith s p = (take (length p) s = p)"

text \<open>\<^verbatim>\<open>s.indexOf(p)\<close>: the index of the first occurrence of \<open>p\<close> in \<open>s\<close>, or -1.\<close>

fun indexOf :: "string \<Rightarrow> string \<Rightarrow> int" where
  "indexOf [] p = (if p = [] then 0 else - 1)"
| "indexOf (c # cs) p =
     (if startsWith (c # cs) p then 0
      else (let i = indexOf cs p in if i = - 1 then - 1 else i + 1))"

text \<open>\<^verbatim>\<open>s.lastIndexOf(p)\<close>: the index of the last occurrence of \<open>p\<close> in \<open>s\<close>, or -1.\<close>

fun lastIndexOf :: "string \<Rightarrow> string \<Rightarrow> int" where
  "lastIndexOf [] p = (if p = [] then 0 else - 1)"
| "lastIndexOf (c # cs) p =
     (let i = lastIndexOf cs p in
      if i \<noteq> - 1 then i + 1
      else if startsWith (c # cs) p then 0 else - 1)"

text \<open>\<^verbatim>\<open>s.substring(start)\<close>: a negative start counts as 0, one past the end gives the empty string.\<close>

definition substring :: "string \<Rightarrow> int \<Rightarrow> string" where
  "substring s start = drop (nat start) s"

text \<open>
  \<^verbatim>\<open>a.indexOf(x)\<close> and \<^verbatim>\<open>a.lastIndexOf(x)\<close> of an array: the index of the first
  and of the last element strictly equal to \<open>x\<close>, or -1.
\<close>

fun Array_indexOf :: "jsval list \<Rightarrow> jsval \<Rightarrow> int" where
  "Array_indexOf [] x = - 1"
| "Array_indexOf (v # vs) x =
     (if v = x then 0
      else (let i = Array_indexOf vs x in if i = - 1 then - 1 else i + 1))"

fun Array_lastIndexOf :: "jsval list \<Rightarrow> jsval \<Rightarrow> int" where
  "Array_lastIndexOf [] x = - 1"
| "Array_lastIndexOf (v # vs) x =
     (let i = Array_lastIndexOf vs x in
      if i \<noteq> - 1 then i + 1
      else if v = x then 0 else - 1)"

text \<open>
  The decimal digits of a natural number, and \<^verbatim>\<open>n.toString()\<close> of an integer (in
  the range where JavaScript prints every digit).
\<close>

fun digits :: "nat \<Rightarrow> string" where
  "digits n = (if n < 10 then [''0123456789'' ! n] else digits (n div 10) @ [''0123456789'' ! (n mod 10)])"

definition Number_toString :: "int \<Rightarrow> string" where
  "Number_toString n = (if n < 0 then ''-'' @ digits (nat (- n)) else digits (nat n))"

definition Boolean_toString :: "bool \<Rightarrow> string" where
  "Boolean_toString b = (if b then ''true'' else ''false'')"

text \<open>
  The conversion of a value to a string, as a template literal and a call of
  \<^verbatim>\<open>toString()\<close> do it. An object inherits \<^verbatim>\<open>Object.prototype.toString\<close>, unless
  an own property of that name hides it: own properties are data, not callable, and
  the conversion raises a TypeError. An array joins the strings of its elements with
  commas, \<^verbatim>\<open>undefined\<close> and \<^verbatim>\<open>null\<close> counting as the empty string; the first
  element that cannot be converted raises.
\<close>

fun ToString :: "heap \<Rightarrow> jsval \<Rightarrow> error + string"
  and Array_join :: "heap \<Rightarrow> jsval list \<Rightarrow> error + string" where
  "ToString h JUndefined = Inr ''undefined''"
| "ToString h JNull = Inr ''null''"
| "ToString h (JBool b) = Inr (Boolean_toString b)"
| "ToString h (JNum n) = Inr (Number_toString n)"
| "ToString h (JStr s) = Inr s"
| "ToString h (JRef a) =
     (case map_of (h a) ''toString'' of
        None \<Rightarrow> Inr ''[object Object]''
      | Some f \<Rightarrow> Inl TypeError)"
| "ToString h (JArr vs) = Array_join h vs"
| "Array_join h [] = Inr []"
| "Array_join h (v # vs) =
     (case (if v = JUndefined \<or> v = JNull then Inr [] else ToString h v) of
        Inl e \<Rightarrow> Inl e
      | Inr s \<Rightarrow>
          if vs = [] then Inr s
          else (case Array_join h vs of
                  Inl e \<Rightarrow> Inl e
                | Inr rest \<Rightarrow> Inr (s @ '','' @ rest)))"

text \<open>
  The optional call \<^verbatim>\<open>v?.toString()\<close>: \<^verbatim>\<open>undefined\<close> when \<open>v\<close> is
  \<^verbatim>\<open>undefined\<close> or \<^verbatim>\<open>null\<close>.
\<close>

definition optional_toString :: "heap \<Rightarrow> jsval \<Rightarrow> error + jsval" where
  "optional_toString h v =
     (if v = JUndefined \<or> v = JNull then Inr JUndefined
      else (case ToString h v of
              Inl e \<Rightarrow> Inl e
            | Inr s \<Rightarrow> Inr (JStr s)))"

section \<open>Metadata extractor\<close>

text \<open>
  The node an event hands to the extractor, which the source casts to
  \<^verbatim>\<open>HTMLElement\<close>: an HTML element, or an SVG element together with the address
  of the \<^verbatim>\<open>SVGAnimatedString\<close> object that is its \<^verbatim>\<open>className\<close>; its class
  attribute, if it has one; its \<^verbatim>\<open>tagName\<close>; and its own enumerable properties,
  where the framework attaches the instance under a key with a version-dependent
  prefix.
\<close>

datatype element_kind = HTML_element | SVG_element addr

record Element =
  kind :: element_kind
  class_attribute :: "string option"
  tagName :: string
  ownProperties :: jsobject

text \<open>
  \<^verbatim>\<open>element.className\<close>, as the platform defines it: on an HTML element the value
  of the class attribute, the empty string when there is none; on an SVG element an
  object.
\<close>

definition Element_className :: "Element \<Rightarrow> jsval" where
  "Element_className element =
     (case kind element of
        HTML_element \<Rightarrow> JStr (case class_attribute element of None \<Rightarrow> [] | Some s \<Rightarrow> s)
      | SVG_element animated \<Rightarrow> JRef animated)"

text \<open>
  \<^verbatim>\<open>Partial<ElementInfo>\<close>, the three fields \<^verbatim>\<open>getReactSourceInfo\<close> fills, and
  \<^verbatim>\<open>ElementInfo\<close>. The nullable fields are values: \<^verbatim>\<open>JNull\<close> is \<^verbatim>\<open>null\<close>,
  and the component name is whatever truthy value the instance's type carries.
\<close>

record ReactInfo =
  filePath :: jsval
  lineNumber :: jsval
  componentName :: jsval

record ElementInfo = ReactInfo +
  className :: string
  tagName :: string

text \<open>
  Lines 130-142 on a file name that is a string: the name made relative to the source
  root \<^verbatim>\<open>/src/\<close>, or cut down to what follows its last slash.
\<close>

definition relative_filePath :: "string \<Rightarrow> string" where
  "relative_filePath fileName =
     (let srcIndex = indexOf fileName ''/src/'' in
      if srcIndex \<noteq> - 1 then substring fileName (srcIndex + 1)
      else (let lastSlash = lastIndexOf fileName ''/'' in
            if lastSlash \<noteq> - 1 then substring fileName (lastSlash + 1)
            else fileName))"

text \<open>
  Lines 130-142 on any truthy file name. An array has \<^verbatim>\<open>indexOf\<close> and
  \<^verbatim>\<open>lastIndexOf\<close> and no \<^verbatim>\<open>substring\<close>: it is kept as it is unless one of its
  elements is the string searched, and then the call of \<^verbatim>\<open>substring\<close> raises. On
  a boolean, a number and an object \<^verbatim>\<open>indexOf\<close> is not a function.
\<close>

fun relative_filePath_value :: "jsval \<Rightarrow> error + jsval" where
  "relative_filePath_value (JStr s) = Inr (JStr (relative_filePath s))"
| "relative_filePath_value (JArr vs) =
     (let srcIndex = Array_indexOf vs (JStr ''/src/'') in
      if srcIndex \<noteq> - 1 then Inl TypeError
      else (let lastSlash = Array_lastIndexOf vs (JStr ''/'') in
            if lastSlash \<noteq> - 1 then Inl TypeError
            else Inr (JArr vs)))"
| "relative_filePath_value v = Inl TypeError"

text \<open>
  Lines 126-147, the debug-source part of one iteration. The result object is
  mutated in place, so a statement that throws returns the result as it stands then:
  the first component is the exception thrown, if any.
\<close>

definition read_debugSource :: "heap \<Rightarrow> jsval \<Rightarrow> ReactInfo \<Rightarrow> error option \<times> ReactInfo" where
  "read_debugSource h fiber result =
     (case get_prop h fiber ''_debugSource'' of
        Inl e \<Rightarrow> (Some e, result)
      | Inr source \<Rightarrow>
          if truthy source then
            (case get_prop h source ''fileName'' of
               Inl e \<Rightarrow> (Some e, result)
             | Inr fileName \<Rightarrow>
                 if truthy fileName then
                   (case relative_filePath_value fileName of
                      Inl e \<Rightarrow> (Some e, result)
                    | Inr path \<Rightarrow>
                        (let result' = result\<lparr>filePath := path\<rparr> in
                         case get_prop h source ''lineNumber'' of
                           Inl e \<Rightarrow> (Some e, result')
                         | Inr n \<Rightarrow>
                             (case optional_toString h n of
                                Inl e \<Rightarrow> (Some e, result')
                              | Inr t \<Rightarrow> (None, result'\<lparr>lineNumber := js_or t JNull\<rparr>))))
                 else (None, result))
          else (None, result))"

text \<open>Lines 150-158, the component-name part of one iteration.\<close>

definition read_componentName :: "heap \<Rightarrow> jsval \<Rightarrow> ReactInfo \<Rightarrow> error option \<times> ReactInfo" where
  "read_componentName h fiber result =
     (case get_prop h fiber ''type'' of
        Inl e \<Rightarrow> (Some e, result)
      | Inr ty \<Rightarrow>
          if truthy ty then
            (case get_prop h ty ''displayName'' of
               Inl e \<Rightarrow> (Some e, result)
             | Inr displayName \<Rightarrow>
                 (case (if truthy displayName then Inr displayName else get_prop h ty ''name'') of
                    Inl e \<Rightarrow> (Some e, result)
                  | Inr typeName \<Rightarrow>
                      if truthy typeName \<and> \<not> truthy (componentName result) then
                        (if typeof ty \<noteq> ''string''
                         then (None, result\<lparr>componentName := typeName\<rparr>)
                         else (None, result))
                      else (None, result)))
          else (None, result))"

text \<open>Lines 125-158: the body of the loop, up to the test that leaves it.\<close>

definition loop_body :: "heap \<Rightarrow> jsval \<Rightarrow> ReactInfo \<Rightarrow> error option \<times> ReactInfo" where
  "loop_body h fiber result =
     (case read_debugSource h fiber result of
        (Some e, result') \<Rightarrow> (Some e, result')
      | (None, result') \<Rightarrow> read_componentName h fiber result')"

text \<open>Line 161: both pieces have been found.\<close>

definition found_both :: "ReactInfo \<Rightarrow> bool" where
  "found_both result = (truthy (filePath result) \<and> truthy (componentName result))"

text \<open>
  Lines 124-167: \<^verbatim>\<open>while (fiber && maxDepth > 0)\<close>. Besides the exception, if any,
  and the result, the walk returns the instances the body ran on, in order, each
  with the result as the body left it.
\<close>

fun walk :: "heap \<Rightarrow> jsval \<Rightarrow> nat \<Rightarrow> ReactInfo \<Rightarrow> error option \<times> ReactInfo \<times> (jsval \<times> ReactInfo) list" where
  "walk h fiber maxDepth result =
     (if truthy fiber \<and> maxDepth > 0 then
        (case loop_body h fiber result of
           (Some e, result') \<Rightarrow> (Some e, result', [(fiber, result')])
         | (None, result') \<Rightarrow>
             if found_both result' then (None, result', [(fiber, result')])
             else
               (case get_prop h fiber ''return'' of
                  Inl e \<Rightarrow> (Some e, result', [(fiber, result')])
                | Inr parent \<Rightarrow>
                    (case walk h parent (maxDepth - 1) result' of
                       (thrown, result'', visited) \<Rightarrow> (thrown, result'', (fiber, result') # visited))))
      else (None, result, []))"

declare walk.simps [simp del]

text \<open>Lines 114-116: the keys under which the framework attaches the instance.\<close>

definition is_fiberKey :: "string \<Rightarrow> bool" where
  "is_fiberKey key = (startsWith key ''__reactFiber$'' \<or> startsWith key ''__reactInternalInstance$'')"

definition Object_keys :: "jsobject \<Rightarrow> string list" where
  "Object_keys obj = map fst obj"

text \<open>\<^verbatim>\<open>obj[key]\<close> on the element's own properties.\<close>

definition own_property :: "jsobject \<Rightarrow> string \<Rightarrow> jsval" where
  "own_property obj key = (case map_of obj key of None \<Rightarrow> JUndefined | Some v \<Rightarrow> v)"

text \<open>
  Lines 112-167, the \<^verbatim>\<open>try\<close> block. A key that \<^verbatim>\<open>find\<close> returns starts with one
  of the prefixes, so \<^verbatim>\<open>!fiberKey\<close> holds exactly when none was found.
\<close>

definition try_block :: "heap \<Rightarrow> Element \<Rightarrow> ReactInfo \<Rightarrow> error option \<times> ReactInfo \<times> (jsval \<times> ReactInfo) list" where
  "try_block h element result =
     (case find is_fiberKey (Object_keys (ownProperties element)) of
        None \<Rightarrow> (None, result, [])
      | Some fiberKey \<Rightarrow> walk h (own_property (ownProperties element) fiberKey) 20 result)"

text \<open>
  \<^verbatim>\<open>getReactSourceInfo\<close>: the result starts with its three fields \<^verbatim>\<open>null\<close>
  (lines 106-110). An exception of the \<^verbatim>\<open>try\<close> block is caught: the \<^verbatim>\<open>catch\<close>
  clause writes to the console and falls through to \<^verbatim>\<open>return result\<close>. \<open>Inl\<close>
  would be an exception leaving the function.
\<close>

definition initial_result :: ReactInfo where
  "initial_result = \<lparr>filePath = JNull, lineNumber = JNull, componentName = JNull\<rparr>"

definition getReactSourceInfo :: "heap \<Rightarrow> Element \<Rightarrow> error + ReactInfo" where
  "getReactSourceInfo h element =
     (let result = initial_result in
      case try_block h element result of
        (Some e, result', visited) \<Rightarrow> Inr result'
      | (None, result', visited) \<Rightarrow> Inr result')"

text \<open>The instances the loop body runs on in a call of \<^verbatim>\<open>getReactSourceInfo\<close>.\<close>

definition visited_instances :: "heap \<Rightarrow> Element \<Rightarrow> (jsval \<times> ReactInfo) list" where
  "visited_instances h element = snd (snd (try_block h element initial_result))"

text \<open>
  \<^verbatim>\<open>getElementInfo\<close>; \<open>Inr None\<close> is \<^verbatim>\<open>null\<close>. The platform's
  \<^verbatim>\<open>String.prototype.toLowerCase\<close> is a parameter. Past the test of line 182 the
  class name is a string, so the last branch is never taken.
\<close>

definition getElementInfo :: "(string \<Rightarrow> string) \<Rightarrow> heap \<Rightarrow> Element \<Rightarrow> error + ElementInfo option" where
  "getElementInfo toLowerCase h element =
     (let cn = Element_className element in
      if \<not> truthy cn \<or> typeof cn \<noteq> ''string'' then Inr None
      else
        (case cn of
           JStr s \<Rightarrow>
             (case getReactSourceInfo h element of
                Inl e \<Rightarrow> Inl e
              | Inr reactInfo \<Rightarrow>
                  Inr (Some \<lparr>filePath = js_or (filePath reactInfo) JNull,
                             lineNumber = js_or (lineNumber reactInfo) JNull,
                             componentName = js_or (componentName reactInfo) JNull,
                             className = s,
                             tagName = toLowerCase (Element.tagName element)\<rparr>))
         | _ \<Rightarrow> Inr None))"



section \<open>Copy-text formatter\<close>

text \<open>
  \<^verbatim>\<open>DEFAULT_CONFIG.formatCopyText\<close>, lines 52-66. A template literal converts the
  value it embeds with \<open>ToString\<close>, which can raise; the class name is a string.
\<close>

definition default_formatCopyText :: "heap \<Rightarrow> ElementInfo \<Rightarrow> error + string" where
  "default_formatCopyText h info =
     (case (if truthy (filePath info) then
              (case ToString h (filePath info) of
                 Inl e \<Rightarrow> Inl e
               | Inr path \<Rightarrow>
                   (case (if truthy (lineNumber info) then
                            (case ToString h (lineNumber info) of
                               Inl e \<Rightarrow> Inl e
                             | Inr line \<Rightarrow> Inr (''// '' @ path @ '':'' @ line))
                          else Inr (''// '' @ path)) of
                      Inl e \<Rightarrow> Inl e
                    | Inr result \<Rightarrow> Inr (result @ ''\<newline>'')))
            else Inr []) of
        Inl e \<Rightarrow> Inl e
      | Inr result \<Rightarrow>
          (case (if truthy (componentName info) then
                   (case ToString h (componentName info) of
                      Inl e \<Rightarrow> Inl e
                    | Inr name \<Rightarrow> Inr (result @ ''// Component: '' @ name @ ''\<newline>''))
                 else Inr result) of
             Inl e \<Rightarrow> Inl e
           | Inr result \<Rightarrow> Inr (result @ ''className=\"'' @ className info @ ''\"'')))"

section \<open>Session state and interaction controller\<close>

text \<open>
  The configuration after the merge of line 432; the theme colours only style the
  overlay and are left out. The formatters are the configured functions: they read
  the heap and may raise.
\<close>

record DevDebugConfig =
  storageKey :: string
  devOnly :: bool
  allowedHosts :: "string list"
  formatCopyText :: "heap \<Rightarrow> ElementInfo \<Rightarrow> error + string"
  formatTooltip :: "heap \<Rightarrow> ElementInfo \<Rightarrow> error + string"

text \<open>The tooltip element: its text and the three style properties the program sets.\<close>

record tooltip_element =
  textContent :: string
  style_display :: string
  style_left :: string
  style_top :: string

text \<open>
  The module's variables (lines 91-94), \<^verbatim>\<open>ctrlPressed\<close> of
  \<^verbatim>\<open>attachEventListeners\<close>, and the two platform stores the program writes:
  \<^verbatim>\<open>localStorage\<close> (\<^verbatim>\<open>getItem\<close> of an absent key is \<^verbatim>\<open>null\<close>, here \<open>None\<close>) and
  the texts handed to \<^verbatim>\<open>navigator.clipboard.writeText\<close>, latest first. Console
  output, the copy notification and the repositioning at the next animation frame
  are not modelled.
\<close>

record session =
  isInitialized :: bool
  isActive :: bool
  config :: DevDebugConfig
  tooltip :: "tooltip_element option"
  ctrlPressed :: bool
  localStorage :: "string \<rightharpoonup> string"
  clipboard_writes :: "string list"

record MouseEvent =
  target :: "Element option"
  clientX :: int
  clientY :: int
  defaultPrevented :: bool

text \<open>\<^verbatim>\<open>createTooltip\<close>: the element is created once, hidden, and reused.\<close>

definition createTooltip :: "session \<Rightarrow> tooltip_element \<times> session" where
  "createTooltip s =
     (case tooltip s of
        Some tip \<Rightarrow> (tip, s)
      | None \<Rightarrow>
          (let tip = \<lparr>textContent = [], style_display = ''none'', style_left = [], style_top = []\<rparr>
           in (tip, s\<lparr>tooltip := Some tip\<rparr>)))"

text \<open>\<^verbatim>\<open>showTooltip\<close>, lines 230-235.\<close>

definition showTooltip :: "MouseEvent \<Rightarrow> string \<Rightarrow> session \<Rightarrow> session" where
  "showTooltip e txt s =
     (case createTooltip s of
        (tip, s') \<Rightarrow>
          s'\<lparr>tooltip := Some (tip\<lparr>textContent := txt,
                                   style_display := ''block'',
                                   style_left := Number_toString (clientX e + 15) @ ''px'',
                                   style_top := Number_toString (clientY e + 15) @ ''px''\<rparr>)\<rparr>)"

definition hideTooltip :: "session \<Rightarrow> session" where
  "hideTooltip s =
     (case tooltip s of
        Some tip \<Rightarrow> s\<lparr>tooltip := Some (tip\<lparr>style_display := ''none''\<rparr>)\<rparr>
      | None \<Rightarrow> s)"

text \<open>The key handlers, lines 308-319, on the event's \<^verbatim>\<open>key\<close>.\<close>

definition keyDownHandler :: "string \<Rightarrow> session \<Rightarrow> session" where
  "keyDownHandler key s = (if key = ''Control'' then s\<lparr>ctrlPressed := True\<rparr> else s)"

definition keyUpHandler :: "string \<Rightarrow> session \<Rightarrow> session" where
  "keyUpHandler key s = (if key = ''Control'' then hideTooltip (s\<lparr>ctrlPressed := False\<rparr>) else s)"

text \<open>
  The first line of every tooltip, \<^verbatim>\<open>[Ctrl+...: ...]\<close> with the Korean words for
  right click (three syllables) and for copy (two), in UTF-8.
\<close>

definition tooltip_hint :: string where
  "tooltip_hint =
     ''[Ctrl+'' @ [CHR 0xEC, CHR 0x9A, CHR 0xB0, CHR 0xED, CHR 0x81, CHR 0xB4, CHR 0xEB, CHR 0xA6, CHR 0xAD]
     @ '': '' @ [CHR 0xEB, CHR 0xB3, CHR 0xB5, CHR 0xEC, CHR 0x82, CHR 0xAC] @ '']''"

text \<open>
  \<^verbatim>\<open>mouseMoveHandler\<close>, lines 321-341: the session as the handler leaves it, and
  the exception that leaves the handler, if any.
\<close>

definition mouseMoveHandler ::
  "(string \<Rightarrow> string) \<Rightarrow> heap \<Rightarrow> MouseEvent \<Rightarrow> session \<Rightarrow> session \<times> error option" where
  "mouseMoveHandler toLowerCase h e s =
     (if \<not> isActive s \<or> \<not> ctrlPressed s then (hideTooltip s, None)
      else
        (case target e of
           None \<Rightarrow> (hideTooltip s, None)
         | Some element \<Rightarrow>
             (case getElementInfo toLowerCase h element of
                Inl err \<Rightarrow> (s, Some err)
              | Inr None \<Rightarrow> (hideTooltip s, None)
              | Inr (Some info) \<Rightarrow>
                  (case formatTooltip (config s) h info of
                     Inl err \<Rightarrow> (s, Some err)
                   | Inr tooltipText \<Rightarrow>
                       (showTooltip e (tooltip_hint @ ''\<newline>'' @ tooltipText) s, None)))))"

text \<open>
  \<^verbatim>\<open>contextMenuHandler\<close>, lines 343-361: the event and the session as the handler
  leaves them, and the exception that leaves the handler, if any.
  \<^verbatim>\<open>e.preventDefault()\<close> suppresses the browser's context menu.
\<close>

definition contextMenuHandler ::
  "(string \<Rightarrow> string) \<Rightarrow> heap \<Rightarrow> MouseEvent \<Rightarrow> session \<Rightarrow> MouseEvent \<times> session \<times> error option" where
  "contextMenuHandler toLowerCase h e s =
     (if \<not> isActive s \<or> \<not> ctrlPressed s then (e, s, None)
      else
        (case target e of
           None \<Rightarrow> (e, s, None)
         | Some element \<Rightarrow>
             (case getElementInfo toLowerCase h element of
                Inl err \<Rightarrow> (e, s, Some err)
              | Inr None \<Rightarrow> (e, s, None)
              | Inr (Some info) \<Rightarrow>
                  (let e' = e\<lparr>defaultPrevented := True\<rparr> in
                   case formatCopyText (config s) h info of
                     Inl err \<Rightarrow> (e', s, Some err)
                   | Inr copyText \<Rightarrow>
                       (e', s\<lparr>clipboard_writes := copyText # clipboard_writes s\<rparr>, None)))))"

text \<open>\<^verbatim>\<open>isDebugEnabled\<close>, \<^verbatim>\<open>setDebugEnabled\<close> and \<^verbatim>\<open>toggleDebugMode\<close>, lines 387-420.\<close>

definition isDebugEnabled :: "session \<Rightarrow> bool" where
  "isDebugEnabled s = (localStorage s (storageKey (config s)) = Some ''true'')"

definition setDebugEnabled :: "bool \<Rightarrow> session \<Rightarrow> session" where
  "setDebugEnabled enabled s =
     (let s' = s\<lparr>localStorage := (localStorage s)(storageKey (config s) \<mapsto> Boolean_toString enabled),
                  isActive := enabled\<rparr>
      in if enabled then s' else hideTooltip s')"

definition toggleDebugMode :: "session \<Rightarrow> bool \<times> session" where
  "toggleDebugMode s =
     (let newState = \<not> isDebugEnabled s
      in (newState, setDebugEnabled newState s))"

section \<open>Example inputs\<close>

text \<open>
  A \<^verbatim>\<open>div\<close> written at \<^verbatim>\<open>/app/src/A.tsx:10\<close>, rendered by the function component
  \<^verbatim>\<open>Foo\<close>, which is used at \<^verbatim>\<open>/app/src/B.tsx:5\<close>: the host instance (address 0)
  and the component's instance (address 2) both carry a debug source.
\<close>

definition example_heap :: heap where
  "example_heap a =
     (if a = 0 then [(''_debugSource'', JRef 1), (''type'', JStr ''div''), (''return'', JRef 2)]
      else if a = 1 then [(''fileName'', JStr ''/app/src/A.tsx''), (''lineNumber'', JNum 10)]
      else if a = 2 then [(''_debugSource'', JRef 3), (''type'', JRef 4), (''return'', JNull)]
      else if a = 3 then [(''fileName'', JStr ''/app/src/B.tsx''), (''lineNumber'', JNum 5)]
      else if a = 4 then [(''name'', JStr ''Foo'')]
      else [])"

definition example_element :: Element where
  "example_element =
     \<lparr>kind = HTML_element, class_attribute = Some ''box'', tagName = ''DIV'',
      ownProperties = [(''__reactFiber$abc'', JRef 0)]\<rparr>"

text \<open>Two instances whose parent links point at each other, with nothing else on them.\<close>

definition cyclic_heap :: heap where
  "cyclic_heap a = (if a = 0 then [(''return'', JRef 1)] else [(''return'', JRef 0)])"




definition classless_element :: Element where
  "classless_element =
     \<lparr>kind = HTML_element, class_attribute = None, tagName = ''P'', ownProperties = []\<rparr>"


text \<open>
  A lower-casing function for the examples: the letters of ASCII in lower case, every
  other character unchanged. On a string of ASCII characters, the only ones it is
  applied to below, it is what the platform's \<^verbatim>\<open>toLowerCase\<close> returns.
\<close>

definition ascii_toLowerCase :: "string \<Rightarrow> string" where
  "ascii_toLowerCase s =
     map (\<lambda>c. case map_of (zip ''ABCDEFGHIJKLMNOPQRSTUVWXYZ'' ''abcdefghijklmnopqrstuvwxyz'') c of
                 None \<Rightarrow> c
               | Some l \<Rightarrow> l) s"

text \<open>
  A configuration with the default storage key, hosts and copy-text formatter, and a
  tooltip formatter of the user's that shows the class name; and the session after
  \<^verbatim>\<open>initDevDebugHelper\<close> in a browser that has never stored the flag.
\<close>

definition example_config :: DevDebugConfig where
  "example_config =
     \<lparr>storageKey = ''devDebugEnabled'', devOnly = True,
      allowedHosts = [''localhost'', ''127.0.0.1''],
      formatCopyText = default_formatCopyText,
      formatTooltip = (\<lambda>h info. Inr (className info))\<rparr>"

definition example_session :: session where
  "example_session =
     \<lparr>isInitialized = True, isActive = False, config = example_config, tooltip = None,
      ctrlPressed = False, localStorage = Map.empty, clipboard_writes = []\<rparr>"

definition example_event :: MouseEvent where
  "example_event =
     \<lparr>target = Some example_element, clientX = 100, clientY = 40, defaultPrevented = False\<rparr>"

section \<open>The walk up the instance tree\<close>

lemma walk_0: "walk h fiber 0 result = (None, result, [])"
  by (subst walk.simps) simp

lemma walk_falsy: "\<not> truthy fiber \<Longrightarrow> walk h fiber maxDepth result = (None, result, [])"
  by (subst walk.simps) simp

lemma walk_step:
  "truthy fiber \<Longrightarrow>
   walk h fiber (Suc n) result =
     (case loop_body h fiber result of
        (Some e, result') \<Rightarrow> (Some e, result', [(fiber, result')])
      | (None, result') \<Rightarrow>
          if found_both result' then (None, result', [(fiber, result')])
          else
            (case get_prop h fiber ''return'' of
               Inl e \<Rightarrow> (Some e, result', [(fiber, result')])
             | Inr parent \<Rightarrow>
                 (case walk h parent n result' of
                    (thrown, result'', visited) \<Rightarrow> (thrown, result'', (fiber, result') # visited))))"
  by (subst walk.simps) (simp cong: prod.case_cong option.case_cong sum.case_cong if_cong)

lemma walk_visited_bound: "length (snd (snd (walk h fiber maxDepth result))) \<le> maxDepth"
proof (induction maxDepth arbitrary: fiber result)
  case 0
  then show ?case by (simp add: walk_0)
next
  case (Suc n)
  show ?case
  proof (cases "truthy fiber")
    case False
    then show ?thesis by (simp add: walk_falsy)
  next
    case True
    have "length visited \<le> n" if "walk h parent n result' = (thrown, result'', visited)"
      for parent result' thrown result'' visited
      using Suc.IH [of parent result'] that by simp
    then show ?thesis
      by (auto simp: walk_step [OF True] split: prod.splits option.splits sum.splits)
  qed
qed

lemma walk_visited_chain:
  "Suc i < length (snd (snd (walk h fiber maxDepth result))) \<Longrightarrow>
     \<not> found_both (snd (snd (snd (walk h fiber maxDepth result)) ! i))
     \<and> get_prop h (fst (snd (snd (walk h fiber maxDepth result)) ! i)) ''return''
         = Inr (fst (snd (snd (walk h fiber maxDepth result)) ! Suc i))"
proof (induction maxDepth arbitrary: fiber result i)
  case 0
  then show ?case by (simp add: walk_0)
next
  case (Suc n)
  show ?case
  proof (cases "truthy fiber")
    case False
    with Suc.prems show ?thesis by (simp add: walk_falsy)
  next
    case True
    obtain thrown result' where body: "loop_body h fiber result = (thrown, result')"
      by (cases "loop_body h fiber result")
    show ?thesis
    proof (cases "thrown = None \<and> \<not> found_both result'")
      case False
      with Suc.prems body show ?thesis
        by (auto simp: walk_step [OF True] split: option.splits)
    next
      case go: True
      show ?thesis
      proof (cases "get_prop h fiber ''return''")
        case (Inl e)
        with Suc.prems body go show ?thesis
          by (auto simp: walk_step [OF True])
      next
        case (Inr parent)
        obtain thrown' result'' visited where rest: "walk h parent n result' = (thrown', result'', visited)"
          by (cases "walk h parent n result'")
        have all: "walk h fiber (Suc n) result = (thrown', result'', (fiber, result') # visited)"
          using body go Inr rest by (auto simp: walk_step [OF True])
        show ?thesis
        proof (cases i)
          case 0
          have "visited \<noteq> []" using Suc.prems all by auto
          then have tp: "truthy parent"
            using rest walk_falsy [of parent h n result'] by auto
          from \<open>visited \<noteq> []\<close> obtain m where m: "n = Suc m"
            using rest walk_0 [of h parent result'] by (cases n) auto
          have "fst (hd visited) = parent"
            using rest \<open>visited \<noteq> []\<close> unfolding m
            by (auto simp: walk_step [OF tp] split: prod.splits option.splits sum.splits if_splits)
          then have "fst (visited ! 0) = parent" using \<open>visited \<noteq> []\<close> by (simp add: hd_conv_nth)
          with 0 all go Inr show ?thesis by simp
        next
          case (Suc j)
          from Suc.prems all Suc have "Suc j < length (snd (snd (walk h parent n result')))"
            by (simp add: rest)
          from Suc.IH [OF this] show ?thesis using all Suc rest by simp
        qed
      qed
    qed
  qed
qed


lemmas evaluation = getElementInfo_def getReactSourceInfo_def try_block_def Object_keys_def
  is_fiberKey_def own_property_def loop_body_def read_debugSource_def read_componentName_def
  found_both_def startsWith_def substring_def relative_filePath_def optional_toString_def
  Number_toString_def Boolean_toString_def js_or_def initial_result_def visited_instances_def
  Element_className_def ascii_toLowerCase_def walk.simps

text \<open>
  C8. A call of \<^verbatim>\<open>getReactSourceInfo\<close> runs the loop body on at most 20 instances,
  whatever the heap, cyclic parent chains included (the walk is a total function of
  its counter \<open>maxDepth\<close>). An instance after whose visit both the file path and the
  component name are truthy is the last one visited. Each instance visited after
  another is what that one's \<^verbatim>\<open>return\<close> property holds.
\<close>

theorem walk_bounded_stops_early:
  "length (visited_instances h element) \<le> 20
   \<and> (\<forall>i. i < length (visited_instances h element)
          \<and> found_both (snd (visited_instances h element ! i))
        \<longrightarrow> Suc i = length (visited_instances h element))
   \<and> (\<forall>i. Suc i < length (visited_instances h element)
        \<longrightarrow> get_prop h (fst (visited_instances h element ! i)) ''return''
            = Inr (fst (visited_instances h element ! Suc i)))"
proof (cases "find is_fiberKey (Object_keys (ownProperties element))")
  case None
  then show ?thesis by (simp add: visited_instances_def try_block_def)
next
  case (Some fiberKey)
  let ?fiber = "own_property (ownProperties element) fiberKey"
  have v: "visited_instances h element = snd (snd (walk h ?fiber 20 initial_result))"
    by (simp add: visited_instances_def try_block_def Some)
  have bound: "length (visited_instances h element) \<le> 20"
    unfolding v by (rule walk_visited_bound)
  have chain: "\<not> found_both (snd (visited_instances h element ! i))
      \<and> get_prop h (fst (visited_instances h element ! i)) ''return''
          = Inr (fst (visited_instances h element ! Suc i))"
    if "Suc i < length (visited_instances h element)" for i
    using that unfolding v by (rule walk_visited_chain)
  have last: "Suc i = length (visited_instances h element)"
    if "i < length (visited_instances h element) \<and> found_both (snd (visited_instances h element ! i))" for i
  proof (rule ccontr)
    assume "Suc i \<noteq> length (visited_instances h element)"
    with that have "Suc i < length (visited_instances h element)" by simp
    from chain [OF this] that show False by simp
  qed
  from bound chain last show ?thesis by blast
qed

theorem walk_bounded_stops_early_witness:
  "length (visited_instances cyclic_heap example_element) = 20
   \<and> length (visited_instances example_heap example_element) = 2
   \<and> found_both (snd (visited_instances example_heap example_element ! 1))
   \<and> get_prop example_heap (fst (visited_instances example_heap example_element ! 0)) ''return''
       = Inr (fst (visited_instances example_heap example_element ! 1))"
proof -
  have cyc: "length (visited_instances cyclic_heap example_element) = 20"
    by (simp add: evaluation cyclic_heap_def example_element_def)
  have ex: "visited_instances example_heap example_element =
      [(JRef 0, \<lparr>filePath = JStr ''src/A.tsx'', lineNumber = JStr ''10'', componentName = JNull\<rparr>),
       (JRef 2, \<lparr>filePath = JStr ''src/B.tsx'', lineNumber = JStr ''5'', componentName = JStr ''Foo''\<rparr>)]"
    by (simp add: evaluation example_heap_def example_element_def)
  have both: "1 < length (visited_instances example_heap example_element)
      \<and> found_both (snd (visited_instances example_heap example_element ! 1))"
    by (simp add: ex found_both_def)
  have link: "Suc 0 < length (visited_instances example_heap example_element)"
    by (simp add: ex)
  from walk_bounded_stops_early [of example_heap example_element] both
  have "Suc 1 = length (visited_instances example_heap example_element)"
    by blast
  moreover from walk_bounded_stops_early [of example_heap example_element] link
  have "get_prop example_heap (fst (visited_instances example_heap example_element ! 0)) ''return''
       = Inr (fst (visited_instances example_heap example_element ! Suc 0))"
    by blast
  moreover from walk_bounded_stops_early [of cyclic_heap example_element]
  have "length (visited_instances cyclic_heap example_element) \<le> 20"
    by blast
  ultimately show ?thesis using cyc both by simp
qed

text \<open>
  The component name, once truthy, is kept for the rest of the walk: the first one
  found is the one returned.
\<close>

lemma componentName_read_debugSource:
  "componentName (snd (read_debugSource h fiber result)) = componentName result"
  by (simp add: read_debugSource_def Let_def split: sum.splits)

lemma componentName_kept_loop_body:
  "truthy (componentName result) \<Longrightarrow> componentName (snd (loop_body h fiber result)) = componentName result"
  using componentName_read_debugSource [of h fiber result]
  by (auto simp: loop_body_def read_componentName_def split: prod.splits option.splits sum.splits)

lemma componentName_kept_walk:
  "truthy (componentName result) \<Longrightarrow>
   componentName (fst (snd (walk h fiber maxDepth result))) = componentName result"
proof (induction maxDepth arbitrary: fiber result)
  case 0
  then show ?case by (simp add: walk_0)
next
  case (Suc n)
  show ?case
  proof (cases "truthy fiber")
    case False
    then show ?thesis by (simp add: walk_falsy)
  next
    case True
    have body: "componentName (snd (loop_body h fiber result)) = componentName result"
      using Suc.prems by (rule componentName_kept_loop_body)
    have "componentName result'' = componentName result"
      if "walk h parent n (snd (loop_body h fiber result)) = (thrown, result'', visited)"
      for parent thrown result'' visited
      using Suc.IH [of "snd (loop_body h fiber result)" parent] Suc.prems body that by simp
    with body show ?thesis
      by (auto simp: walk_step [OF True] split: prod.splits option.splits sum.splits)
  qed
qed

text \<open>
  C2 says that the file path and the line number of the result come from the first
  ancestor that exposes a debug source with a file name, and the component name
  from the first ancestor whose type is named and not a tag. The code does not do
  the former. In the example the first instance visited, the \<^verbatim>\<open>div\<close>, exposes
  the debug source \<^verbatim>\<open>/app/src/A.tsx:10\<close>, which read alone gives the path
  \<^verbatim>\<open>src/A.tsx\<close> and the line \<^verbatim>\<open>10\<close>; the result carries \<^verbatim>\<open>src/B.tsx\<close> and
  \<^verbatim>\<open>5\<close>, the debug source of the component's instance visited after it. Line 144
  assigns the path at every instance that has a file name, without a test like the
  \<^verbatim>\<open>!result.componentName\<close> that guards the component name at line 152.
\<close>

theorem getReactSourceInfo_filePath_of_last_source:
  "fst (visited_instances example_heap example_element ! 0) = JRef 0
   \<and> read_debugSource example_heap (JRef 0) initial_result
       = (None, \<lparr>filePath = JStr ''src/A.tsx'', lineNumber = JStr ''10'', componentName = JNull\<rparr>)
   \<and> getReactSourceInfo example_heap example_element
       = Inr \<lparr>filePath = JStr ''src/B.tsx'', lineNumber = JStr ''5'', componentName = JStr ''Foo''\<rparr>"
  by (simp add: evaluation example_heap_def example_element_def)

section \<open>The path relative to the source root\<close>



















section \<open>Failures during the walk\<close>






lemma getReactSourceInfo_result:
  "getReactSourceInfo h element = Inr (fst (snd (try_block h element initial_result)))"
  by (auto simp: getReactSourceInfo_def split: prod.splits option.splits)

lemma getElementInfo_returns: "\<exists>info. getElementInfo toLowerCase h element = Inr info"
  by (simp add: getElementInfo_def getReactSourceInfo_result Let_def split: jsval.splits)




section \<open>Element information\<close>




section \<open>The default copy text\<close>

text \<open>
  C4. The default copy-text formatter, applied to the info with file path
  \<^verbatim>\<open>a/b.tsx\<close>, line number \<^verbatim>\<open>10\<close>, component name \<^verbatim>\<open>Foo\<close> and class name
  \<^verbatim>\<open>x y\<close>, returns (and does not raise) the three lines \<^verbatim>\<open>// a/b.tsx:10\<close>,
  \<^verbatim>\<open>// Component: Foo\<close> and \<^verbatim>\<open>className="x y"\<close>, separated by newlines, whatever
  the tag name and the heap.
\<close>

theorem default_formatCopyText_example:
  "default_formatCopyText h
     \<lparr>filePath = JStr ''a/b.tsx'', lineNumber = JStr ''10'', componentName = JStr ''Foo'',
      className = ''x y'', tagName = t\<rparr>
   = Inr ''// a/b.tsx:10\<newline>// Component: Foo\<newline>className=\"x y\"''"
  by (simp add: default_formatCopyText_def)

theorem default_formatCopyText_example_witness:
  "default_formatCopyText example_heap
     \<lparr>filePath = JStr ''a/b.tsx'', lineNumber = JStr ''10'', componentName = JStr ''Foo'',
      className = ''x y'', tagName = ''div''\<rparr>
   = Inr ''// a/b.tsx:10\<newline>// Component: Foo\<newline>className=\"x y\"''"
  by (rule default_formatCopyText_example)

section \<open>The persisted flag\<close>

text \<open>
  C9. \<^verbatim>\<open>isDebugEnabled\<close> is true exactly when the value stored under the storage
  key is the string \<^verbatim>\<open>true\<close>: it is false when nothing is stored, and false for
  every other stored value.
\<close>

theorem isDebugEnabled_only_true:
  "isDebugEnabled s = (localStorage s (storageKey (config s)) = Some ''true'')
   \<and> (localStorage s (storageKey (config s)) = None \<longrightarrow> \<not> isDebugEnabled s)
   \<and> (\<forall>v. localStorage s (storageKey (config s)) = Some v \<and> v \<noteq> ''true'' \<longrightarrow> \<not> isDebugEnabled s)"
  by (simp add: isDebugEnabled_def)

theorem isDebugEnabled_only_true_witness:
  "\<not> isDebugEnabled example_session
   \<and> \<not> isDebugEnabled (example_session\<lparr>localStorage := [''devDebugEnabled'' \<mapsto> ''TRUE'']\<rparr>)
   \<and> isDebugEnabled (example_session\<lparr>localStorage := [''devDebugEnabled'' \<mapsto> ''true'']\<rparr>)"
  using isDebugEnabled_only_true [of example_session]
    isDebugEnabled_only_true [of "example_session\<lparr>localStorage := [''devDebugEnabled'' \<mapsto> ''TRUE'']\<rparr>"]
    isDebugEnabled_only_true [of "example_session\<lparr>localStorage := [''devDebugEnabled'' \<mapsto> ''true'']\<rparr>"]
  by (simp add: example_session_def example_config_def)

lemma config_hideTooltip: "config (hideTooltip s) = config s"
  by (simp add: hideTooltip_def split: option.splits)

lemma localStorage_hideTooltip: "localStorage (hideTooltip s) = localStorage s"
  by (simp add: hideTooltip_def split: option.splits)

lemma config_setDebugEnabled: "config (setDebugEnabled b s) = config s"
  by (simp add: setDebugEnabled_def Let_def config_hideTooltip)

lemma localStorage_setDebugEnabled:
  "localStorage (setDebugEnabled b s) = (localStorage s)(storageKey (config s) \<mapsto> Boolean_toString b)"
  by (simp add: setDebugEnabled_def Let_def localStorage_hideTooltip)

lemma isDebugEnabled_setDebugEnabled: "isDebugEnabled (setDebugEnabled b s) = b"
  by (simp add: isDebugEnabled_def config_setDebugEnabled localStorage_setDebugEnabled
      Boolean_toString_def)

text \<open>
  C5, as the claim states it, fails: in a browser that has never stored the flag,
  two calls of \<^verbatim>\<open>toggleDebugMode\<close> leave the string \<^verbatim>\<open>false\<close> stored under a key
  that was absent.
\<close>

theorem toggle_twice_counterexample:
  "localStorage (snd (toggleDebugMode (snd (toggleDebugMode example_session)))) \<noteq> localStorage example_session"
proof
  assume same:
    "localStorage (snd (toggleDebugMode (snd (toggleDebugMode example_session)))) = localStorage example_session"
  have "localStorage (snd (toggleDebugMode (snd (toggleDebugMode example_session)))) ''devDebugEnabled''
        = Some ''false''"
    by (simp add: toggleDebugMode_def Let_def localStorage_setDebugEnabled config_setDebugEnabled
        isDebugEnabled_setDebugEnabled isDebugEnabled_def example_session_def example_config_def
        Boolean_toString_def)
  moreover have "localStorage example_session ''devDebugEnabled'' = None"
    by (simp add: example_session_def)
  ultimately show False using same by simp
qed

text \<open>
  C5, amended. One call of \<^verbatim>\<open>toggleDebugMode\<close> reads the flag, stores its negation
  as \<^verbatim>\<open>true\<close> or \<^verbatim>\<open>false\<close> under the storage key, and returns the negation, which
  is the flag read afterwards. The second of two calls in succession returns the
  original flag, and the store then holds, under the storage key, the original flag
  written as \<^verbatim>\<open>true\<close> or \<^verbatim>\<open>false\<close>, every other key unchanged: the store is the
  original one when the value stored at first was \<^verbatim>\<open>true\<close> or \<^verbatim>\<open>false\<close>.
\<close>

theorem toggle_twice:
  "fst (toggleDebugMode s) = (\<not> isDebugEnabled s)
   \<and> localStorage (snd (toggleDebugMode s)) =
       (localStorage s)(storageKey (config s) \<mapsto> Boolean_toString (\<not> isDebugEnabled s))
   \<and> isDebugEnabled (snd (toggleDebugMode s)) = (\<not> isDebugEnabled s)
   \<and> fst (toggleDebugMode (snd (toggleDebugMode s))) = isDebugEnabled s
   \<and> localStorage (snd (toggleDebugMode (snd (toggleDebugMode s)))) =
       (localStorage s)(storageKey (config s) \<mapsto> Boolean_toString (isDebugEnabled s))
   \<and> (localStorage s (storageKey (config s)) = Some ''true''
        \<or> localStorage s (storageKey (config s)) = Some ''false''
        \<longrightarrow> localStorage (snd (toggleDebugMode (snd (toggleDebugMode s)))) = localStorage s)"
  by (auto simp: toggleDebugMode_def Let_def localStorage_setDebugEnabled config_setDebugEnabled
        isDebugEnabled_setDebugEnabled isDebugEnabled_def Boolean_toString_def fun_upd_idem)

theorem toggle_twice_witness:
  "fst (toggleDebugMode (example_session\<lparr>localStorage := [''devDebugEnabled'' \<mapsto> ''false'']\<rparr>)) = True
   \<and> fst (toggleDebugMode (snd (toggleDebugMode
        (example_session\<lparr>localStorage := [''devDebugEnabled'' \<mapsto> ''false'']\<rparr>)))) = False
   \<and> localStorage (snd (toggleDebugMode (snd (toggleDebugMode
        (example_session\<lparr>localStorage := [''devDebugEnabled'' \<mapsto> ''false'']\<rparr>)))))
       = [''devDebugEnabled'' \<mapsto> ''false'']"
proof -
  let ?s = "example_session\<lparr>localStorage := [''devDebugEnabled'' \<mapsto> ''false'']\<rparr>"
  have key: "storageKey (config ?s) = ''devDebugEnabled''"
    by (simp add: example_session_def example_config_def)
  have stored: "localStorage ?s = [''devDebugEnabled'' \<mapsto> ''false'']"
    by simp
  have off: "\<not> isDebugEnabled ?s"
    by (simp add: isDebugEnabled_def key)
  from toggle_twice [of ?s]
  have "fst (toggleDebugMode ?s) = (\<not> isDebugEnabled ?s)"
    and "fst (toggleDebugMode (snd (toggleDebugMode ?s))) = isDebugEnabled ?s"
    and "localStorage ?s (storageKey (config ?s)) = Some ''true''
         \<or> localStorage ?s (storageKey (config ?s)) = Some ''false''
         \<longrightarrow> localStorage (snd (toggleDebugMode (snd (toggleDebugMode ?s)))) = localStorage ?s"
    by blast+
  with off show ?thesis
    by (simp only: key stored) simp
qed

section \<open>Interaction controller\<close>

lemma getElementInfo_example:
  "getElementInfo ascii_toLowerCase example_heap example_element =
     Inr (Some \<lparr>filePath = JStr ''src/B.tsx'', lineNumber = JStr ''5'', componentName = JStr ''Foo'',
                 className = ''box'', tagName = ''div''\<rparr>)"
  by (simp add: evaluation example_heap_def example_element_def)

text \<open>
  C6. A right click while the helper is not active or the modifier is not held
  changes neither the event nor the session: the browser's context menu is allowed.
  While active with the modifier held, the info of the event's target is extracted:
  with no target or no info, again nothing changes; with an info the default is
  prevented, and the copy text the configured formatter returns is handed to the
  clipboard (if the formatter raises, the default is prevented all the same and
  nothing is handed over). So the default menu of an event that arrives unprevented
  is suppressed exactly when the helper is active, the modifier is held and the
  extraction yields an info.
\<close>

theorem contextMenuHandler_default_menu:
  "(\<not> (isActive s \<and> ctrlPressed s) \<longrightarrow> contextMenuHandler toLowerCase h e s = (e, s, None))
   \<and> (isActive s \<and> ctrlPressed s \<and> target e = None
        \<longrightarrow> contextMenuHandler toLowerCase h e s = (e, s, None))
   \<and> (\<forall>element. isActive s \<and> ctrlPressed s \<and> target e = Some element
          \<and> getElementInfo toLowerCase h element = Inr None
         \<longrightarrow> contextMenuHandler toLowerCase h e s = (e, s, None))
   \<and> (\<forall>element info.
         isActive s \<and> ctrlPressed s \<and> target e = Some element
         \<and> getElementInfo toLowerCase h element = Inr (Some info)
         \<longrightarrow> contextMenuHandler toLowerCase h e s =
               (case formatCopyText (config s) h info of
                  Inr copyText \<Rightarrow>
                    (e\<lparr>defaultPrevented := True\<rparr>,
                     s\<lparr>clipboard_writes := copyText # clipboard_writes s\<rparr>, None)
                | Inl err \<Rightarrow> (e\<lparr>defaultPrevented := True\<rparr>, s, Some err)))
   \<and> defaultPrevented (fst (contextMenuHandler toLowerCase h e s)) =
       (defaultPrevented e
        \<or> (isActive s \<and> ctrlPressed s
            \<and> (\<exists>element info. target e = Some element
                  \<and> getElementInfo toLowerCase h element = Inr (Some info))))"
proof -
  have returns: "getElementInfo toLowerCase h element \<noteq> Inl err" for element err
    using getElementInfo_returns [of toLowerCase h element] by auto
  show ?thesis
    by (auto simp: contextMenuHandler_def Let_def returns split: option.splits sum.splits)
qed

theorem contextMenuHandler_default_menu_witness:
  "contextMenuHandler ascii_toLowerCase example_heap example_event
      (example_session\<lparr>isActive := True, ctrlPressed := True\<rparr>)
     = (example_event\<lparr>defaultPrevented := True\<rparr>,
        example_session\<lparr>isActive := True, ctrlPressed := True,
          clipboard_writes := [''// src/B.tsx:5\<newline>// Component: Foo\<newline>className=\"box\"'']\<rparr>,
        None)
   \<and> contextMenuHandler ascii_toLowerCase example_heap example_event (example_session\<lparr>isActive := True\<rparr>)
     = (example_event, example_session\<lparr>isActive := True\<rparr>, None)
   \<and> contextMenuHandler ascii_toLowerCase example_heap (example_event\<lparr>target := Some classless_element\<rparr>)
        (example_session\<lparr>isActive := True, ctrlPressed := True\<rparr>)
     = (example_event\<lparr>target := Some classless_element\<rparr>,
        example_session\<lparr>isActive := True, ctrlPressed := True\<rparr>, None)"
proof -
  let ?on = "example_session\<lparr>isActive := True, ctrlPressed := True\<rparr>"
  have none: "getElementInfo ascii_toLowerCase example_heap classless_element = Inr None"
    by (simp add: getElementInfo_def classless_element_def Element_className_def)
  have fmt: "formatCopyText (config ?on) example_heap
      \<lparr>filePath = JStr ''src/B.tsx'', lineNumber = JStr ''5'', componentName = JStr ''Foo'',
       className = ''box'', tagName = ''div''\<rparr>
     = Inr ''// src/B.tsx:5\<newline>// Component: Foo\<newline>className=\"box\"''"
    by (simp add: example_session_def example_config_def default_formatCopyText_def)
  have "contextMenuHandler ascii_toLowerCase example_heap example_event ?on
     = (example_event\<lparr>defaultPrevented := True\<rparr>,
        ?on\<lparr>clipboard_writes := [''// src/B.tsx:5\<newline>// Component: Foo\<newline>className=\"box\"'']\<rparr>,
        None)"
    using contextMenuHandler_default_menu [of ?on ascii_toLowerCase example_heap example_event]
      getElementInfo_example fmt
    by (simp add: example_event_def example_session_def)
  moreover have "contextMenuHandler ascii_toLowerCase example_heap example_event (example_session\<lparr>isActive := True\<rparr>)
     = (example_event, example_session\<lparr>isActive := True\<rparr>, None)"
    using contextMenuHandler_default_menu
      [of "example_session\<lparr>isActive := True\<rparr>" ascii_toLowerCase example_heap example_event]
    by (simp add: example_session_def)
  moreover have "contextMenuHandler ascii_toLowerCase example_heap (example_event\<lparr>target := Some classless_element\<rparr>) ?on
     = (example_event\<lparr>target := Some classless_element\<rparr>, ?on, None)"
    using contextMenuHandler_default_menu
      [of ?on ascii_toLowerCase example_heap "example_event\<lparr>target := Some classless_element\<rparr>"] none
    by (simp add: example_session_def)
  ultimately show ?thesis by simp
qed

lemma tooltip_hideTooltip:
  "tooltip (hideTooltip s) = Some tip \<Longrightarrow> style_display tip = ''none''"
  by (auto simp: hideTooltip_def split: option.splits)

lemma tooltip_showTooltip:
  "\<exists>tip. tooltip (showTooltip e txt s) = Some tip \<and> style_display tip = ''block'' \<and> textContent tip = txt
     \<and> style_left tip = Number_toString (clientX e + 15) @ ''px''
     \<and> style_top tip = Number_toString (clientY e + 15) @ ''px''"
  by (simp add: showTooltip_def createTooltip_def Let_def split: option.splits)

lemma hint_line_added: "hint @ ''\<newline>'' @ txt \<noteq> txt"
proof
  assume "hint @ ''\<newline>'' @ txt = txt"
  then have "length (hint @ ''\<newline>'' @ txt) = length txt" by simp
  then show False by simp
qed

text \<open>
  C10. A pointer move while the helper is active, the modifier is held, the target
  has an info and the configured tooltip formatter returns a text for it, displays
  the tooltip with the hint line \<^verbatim>\<open>[Ctrl+...: ...]\<close> (the bytes below are the
  UTF-8 of the Korean words for right click and for copy), a newline, and the
  formatter's text; that is not the formatter's text alone. No other pointer move
  shows the tooltip: if the tooltip is displayed after the handler, either this move
  displayed it, with that text, or the handler raised and left the session as it
  was.
\<close>

theorem mouseMoveHandler_tooltip_text:
  "(\<forall>element info tooltipText.
      isActive s \<and> ctrlPressed s \<and> target e = Some element
      \<and> getElementInfo toLowerCase h element = Inr (Some info)
      \<and> formatTooltip (config s) h info = Inr tooltipText \<longrightarrow>
      (\<exists>tip. tooltip (fst (mouseMoveHandler toLowerCase h e s)) = Some tip
         \<and> style_display tip = ''block''
         \<and> textContent tip =
             ''[Ctrl+'' @ [CHR 0xEC, CHR 0x9A, CHR 0xB0, CHR 0xED, CHR 0x81, CHR 0xB4, CHR 0xEB, CHR 0xA6, CHR 0xAD]
             @ '': '' @ [CHR 0xEB, CHR 0xB3, CHR 0xB5, CHR 0xEC, CHR 0x82, CHR 0xAC] @ '']''
             @ ''\<newline>'' @ tooltipText
         \<and> textContent tip \<noteq> tooltipText))
   \<and> (\<forall>tip. tooltip (fst (mouseMoveHandler toLowerCase h e s)) = Some tip
         \<and> style_display tip = ''block'' \<longrightarrow>
        (\<exists>element info tooltipText.
           isActive s \<and> ctrlPressed s \<and> target e = Some element
           \<and> getElementInfo toLowerCase h element = Inr (Some info)
           \<and> formatTooltip (config s) h info = Inr tooltipText
           \<and> textContent tip =
               ''[Ctrl+'' @ [CHR 0xEC, CHR 0x9A, CHR 0xB0, CHR 0xED, CHR 0x81, CHR 0xB4, CHR 0xEB, CHR 0xA6, CHR 0xAD]
               @ '': '' @ [CHR 0xEB, CHR 0xB3, CHR 0xB5, CHR 0xEC, CHR 0x82, CHR 0xAC] @ '']''
               @ ''\<newline>'' @ tooltipText)
        \<or> (\<exists>err. mouseMoveHandler toLowerCase h e s = (s, Some err)))"
proof (intro conjI allI impI)
  fix element info tooltipText
  assume a: "isActive s \<and> ctrlPressed s \<and> target e = Some element
      \<and> getElementInfo toLowerCase h element = Inr (Some info)
      \<and> formatTooltip (config s) h info = Inr tooltipText"
  then have "fst (mouseMoveHandler toLowerCase h e s)
      = showTooltip e (tooltip_hint @ ''\<newline>'' @ tooltipText) s"
    by (simp add: mouseMoveHandler_def)
  with tooltip_showTooltip [of e "tooltip_hint @ ''\<newline>'' @ tooltipText" s]
  obtain tip where tip: "tooltip (fst (mouseMoveHandler toLowerCase h e s)) = Some tip"
    "style_display tip = ''block''" "textContent tip = tooltip_hint @ ''\<newline>'' @ tooltipText"
    by auto
  from tip(3) have "textContent tip \<noteq> tooltipText"
    using hint_line_added [of tooltip_hint tooltipText] by simp
  with tip show "\<exists>tip. tooltip (fst (mouseMoveHandler toLowerCase h e s)) = Some tip
         \<and> style_display tip = ''block''
         \<and> textContent tip =
             ''[Ctrl+'' @ [CHR 0xEC, CHR 0x9A, CHR 0xB0, CHR 0xED, CHR 0x81, CHR 0xB4, CHR 0xEB, CHR 0xA6, CHR 0xAD]
             @ '': '' @ [CHR 0xEB, CHR 0xB3, CHR 0xB5, CHR 0xEC, CHR 0x82, CHR 0xAC] @ '']''
             @ ''\<newline>'' @ tooltipText
         \<and> textContent tip \<noteq> tooltipText"
    by (simp add: tooltip_hint_def)
next
  fix tip
  assume shown: "tooltip (fst (mouseMoveHandler toLowerCase h e s)) = Some tip \<and> style_display tip = ''block''"
  have not_hidden: "tooltip (hideTooltip s) \<noteq> Some tip"
    using shown tooltip_hideTooltip [of s tip] by auto
  show "(\<exists>element info tooltipText.
           isActive s \<and> ctrlPressed s \<and> target e = Some element
           \<and> getElementInfo toLowerCase h element = Inr (Some info)
           \<and> formatTooltip (config s) h info = Inr tooltipText
           \<and> textContent tip =
               ''[Ctrl+'' @ [CHR 0xEC, CHR 0x9A, CHR 0xB0, CHR 0xED, CHR 0x81, CHR 0xB4, CHR 0xEB, CHR 0xA6, CHR 0xAD]
               @ '': '' @ [CHR 0xEB, CHR 0xB3, CHR 0xB5, CHR 0xEC, CHR 0x82, CHR 0xAC] @ '']''
               @ ''\<newline>'' @ tooltipText)
        \<or> (\<exists>err. mouseMoveHandler toLowerCase h e s = (s, Some err))"
  proof (cases "\<exists>err. mouseMoveHandler toLowerCase h e s = (s, Some err)")
    case True
    then show ?thesis by blast
  next
    case False
    with shown not_hidden obtain element info tooltipText where
      on: "isActive s" "ctrlPressed s" and tg: "target e = Some element"
      and inf: "getElementInfo toLowerCase h element = Inr (Some info)"
      and fmt: "formatTooltip (config s) h info = Inr tooltipText"
      by (auto simp: mouseMoveHandler_def split: if_splits option.splits sum.splits)
    then have "fst (mouseMoveHandler toLowerCase h e s)
        = showTooltip e (tooltip_hint @ ''\<newline>'' @ tooltipText) s"
      by (simp add: mouseMoveHandler_def)
    with shown tooltip_showTooltip [of e "tooltip_hint @ ''\<newline>'' @ tooltipText" s]
    have "textContent tip = tooltip_hint @ ''\<newline>'' @ tooltipText"
      by auto
    with on tg inf fmt show ?thesis
      by (auto simp: tooltip_hint_def)
  qed
qed

theorem mouseMoveHandler_tooltip_text_witness:
  "mouseMoveHandler ascii_toLowerCase example_heap example_event
      (example_session\<lparr>isActive := True, ctrlPressed := True\<rparr>)
     = (example_session\<lparr>isActive := True, ctrlPressed := True,
          tooltip := Some \<lparr>textContent =
               ''[Ctrl+'' @ [CHR 0xEC, CHR 0x9A, CHR 0xB0, CHR 0xED, CHR 0x81, CHR 0xB4, CHR 0xEB, CHR 0xA6, CHR 0xAD]
               @ '': '' @ [CHR 0xEB, CHR 0xB3, CHR 0xB5, CHR 0xEC, CHR 0x82, CHR 0xAC] @ '']''
               @ ''\<newline>box'',
             style_display = ''block'', style_left = ''115px'', style_top = ''55px''\<rparr>\<rparr>,
        None)"
proof -
  let ?on = "example_session\<lparr>isActive := True, ctrlPressed := True\<rparr>"
  let ?info = "\<lparr>filePath = JStr ''src/B.tsx'', lineNumber = JStr ''5'', componentName = JStr ''Foo'',
           className = ''box'', tagName = ''div''\<rparr>"
  have "isActive ?on \<and> ctrlPressed ?on \<and> target example_event = Some example_element
      \<and> getElementInfo ascii_toLowerCase example_heap example_element = Inr (Some ?info)
      \<and> formatTooltip (config ?on) example_heap ?info = Inr ''box''"
    by (simp add: getElementInfo_example example_event_def example_session_def example_config_def)
  with mouseMoveHandler_tooltip_text [of ?on example_event ascii_toLowerCase example_heap]
  obtain tip where tip: "tooltip (fst (mouseMoveHandler ascii_toLowerCase example_heap example_event ?on)) = Some tip"
    and shown_text: "textContent tip =
               ''[Ctrl+'' @ [CHR 0xEC, CHR 0x9A, CHR 0xB0, CHR 0xED, CHR 0x81, CHR 0xB4, CHR 0xEB, CHR 0xA6, CHR 0xAD]
               @ '': '' @ [CHR 0xEB, CHR 0xB3, CHR 0xB5, CHR 0xEC, CHR 0x82, CHR 0xAC] @ '']''
               @ ''\<newline>'' @ ''box''"
    by blast
  have "mouseMoveHandler ascii_toLowerCase example_heap example_event ?on
     = (?on\<lparr>tooltip := Some \<lparr>textContent = tooltip_hint @ ''\<newline>box'',
             style_display = ''block'', style_left = ''115px'', style_top = ''55px''\<rparr>\<rparr>, None)"
    by (simp add: mouseMoveHandler_def getElementInfo_example example_event_def showTooltip_def
        createTooltip_def example_session_def example_config_def Number_toString_def Let_def)
  with tip shown_text show ?thesis by (simp add: tooltip_hint_def)
qed

end
